theory Spec2Isabelle
  imports Main "HOL-Library.Sublist"
begin

section \<open>The supervised renderer component (AZVWebView)\<close>

text \<open>
  The component keeps its recovery state in React refs and state hooks. The model is a
  record holding those cells, with every callback a function from the record to the
  updated record. \<open>Date.now()\<close> is an argument of each callback that reads the clock
  (milliseconds, an integer). \<open>webViewRef\<close> says whether \<open>webViewRef.current\<close> is
  non-null. What the component sends out (commands to the renderer, calls into the
  message service) is appended to \<open>effects\<close> in program order.
\<close>

datatype effect =
    Reload
  | Remount
  | InjectJavaScript int
  | HandleWebViewMessage string
  | HandleLoadEnd

text \<open>
  \<open>Reload\<close> is \<open>webViewRef.current.reload()\<close>; \<open>Remount\<close> is the change of the
  \<open>key\<close> of the WebView element, which makes React destroy and recreate it;
  \<open>InjectJavaScript t\<close> is the injection of the liveness script whose token is
  \<open>String(t)\<close>.
\<close>

record heartbeat_timer =
  delay :: int
  before :: nat

record azv_state =
  isLoading :: bool
  webKey :: nat
  pongCounter :: nat
  lastReload :: int
  reloadAttempts :: nat
  webViewRef :: bool
  timers :: "heartbeat_timer list"
  effects :: "effect list"

definition initial_state :: azv_state where
  "initial_state =
     \<lparr>isLoading = True, webKey = 0, pongCounter = 0, lastReload = 0, reloadAttempts = 0,
      webViewRef = False, timers = [], effects = []\<rparr>"

text \<open>The state once React has attached the first WebView instance.\<close>

definition mounted_state :: azv_state where
  "mounted_state = initial_state\<lparr>webViewRef := True\<rparr>"

definition hardRemount :: "azv_state \<Rightarrow> azv_state" where
  "hardRemount s =
     s\<lparr>isLoading := True, webKey := webKey s + 1, effects := effects s @ [Remount]\<rparr>"

definition softReload :: "azv_state \<Rightarrow> azv_state" where
  "softReload s =
     (let s1 = s\<lparr>isLoading := True\<rparr> in
      if webViewRef s1 then s1\<lparr>effects := effects s1 @ [Reload]\<rparr>
      else hardRemount s1)"

definition safeReload :: "int \<Rightarrow> bool \<Rightarrow> azv_state \<Rightarrow> azv_state" where
  "safeReload now hard s =
     (if now - lastReload s < 1500 then s
      else
        let s1 = s\<lparr>lastReload := now, reloadAttempts := reloadAttempts s + 1\<rparr> in
        if hard \<or> 3 \<le> reloadAttempts s1 then hardRemount (s1\<lparr>reloadAttempts := 0\<rparr>)
        else softReload s1)"

definition onContentProcessDidTerminate :: "int \<Rightarrow> azv_state \<Rightarrow> azv_state" where
  "onContentProcessDidTerminate now s = safeReload now True s"

text \<open>\<open>didCrash\<close> is the truth value of \<open>e?.nativeEvent?.didCrash\<close>.\<close>

definition onRenderProcessGone :: "bool \<Rightarrow> azv_state \<Rightarrow> azv_state" where
  "onRenderProcessGone didCrash s = (if didCrash then hardRemount s else softReload s)"

datatype AppStateStatus = Active | Background | Inactive

text \<open>
  The listener on host state changes. The timer it starts is kept in \<open>timers\<close> with its
  delay and the snapshot its closure holds; \<open>heartbeatTimeout\<close> is the timer's callback.
\<close>

definition onAppStateChange :: "int \<Rightarrow> AppStateStatus \<Rightarrow> azv_state \<Rightarrow> azv_state" where
  "onAppStateChange now st s =
     (if st = Active then
        let snapshot = pongCounter s;
            s1 = (if webViewRef s then s\<lparr>effects := effects s @ [InjectJavaScript now]\<rparr> else s)
        in s1\<lparr>timers := timers s1 @ [\<lparr>delay = 1200, before = snapshot\<rparr>]\<rparr>
      else s)"

definition heartbeatTimeout :: "int \<Rightarrow> nat \<Rightarrow> azv_state \<Rightarrow> azv_state" where
  "heartbeatTimeout now snapshot s =
     (if pongCounter s = snapshot then safeReload now False s else s)"

text \<open>All heartbeat timers have the same delay, so the oldest pending one fires first.\<close>

definition fireTimer :: "int \<Rightarrow> azv_state \<Rightarrow> azv_state" where
  "fireTimer now s =
     (case timers s of
        [] \<Rightarrow> s
      | t # ts \<Rightarrow> heartbeatTimeout now (before t) (s\<lparr>timers := ts\<rparr>))"

definition handleWebViewLoadEnd :: "azv_state \<Rightarrow> azv_state" where
  "handleWebViewLoadEnd s = s\<lparr>reloadAttempts := 0, effects := effects s @ [HandleLoadEnd]\<rparr>"

text \<open>
  \<open>statusCode\<close> is \<open>e?.nativeEvent?.statusCode\<close>: \<open>None\<close> when the event carries
  none (both comparisons with \<open>undefined\<close> are false).
\<close>

definition onHttpError :: "int \<Rightarrow> int option \<Rightarrow> azv_state \<Rightarrow> azv_state" where
  "onHttpError now statusCode s =
     (case statusCode of
        None \<Rightarrow> s
      | Some status \<Rightarrow> if 500 \<le> status \<or> status = 0 then safeReload now False s else s)"

subsection \<open>Messages from the renderer\<close>

text \<open>
  The value \<open>JSON.parse\<close> returns. \<open>JSON.parse\<close> itself is an argument of
  \<open>handleMessage\<close>: \<open>None\<close> stands for the exception it throws on malformed text.
\<close>

datatype json =
    JNull
  | JBool bool
  | JNum int
  | JStr string
  | JArr "json list"
  | JObj "(string \<times> json) list"

text \<open>\<open>data?.t\<close>: only an object can own a property \<open>t\<close>.\<close>

fun json_t :: "json \<Rightarrow> json option" where
  "json_t (JObj props) = map_of props ''t''"
| "json_t _ = None"

definition handleMessage :: "(string \<Rightarrow> json option) \<Rightarrow> string \<Rightarrow> azv_state \<Rightarrow> azv_state" where
  "handleMessage JSON_parse raw s =
     (let forward = s\<lparr>effects := effects s @ [HandleWebViewMessage raw]\<rparr> in
      case JSON_parse raw of
        None \<Rightarrow> forward
      | Some data \<Rightarrow>
          if json_t data = Some (JStr ''pong'') then s\<lparr>pongCounter := pongCounter s + 1\<rparr>
          else forward)"

subsection \<open>Event sequences\<close>

text \<open>
  The callbacks that read or write the recovery state, one constructor each.
  \<open>RefChange\<close> is React attaching or detaching the WebView instance (the \<open>ref\<close>
  callback of the element).
\<close>

datatype event =
    AppStateChange int AppStateStatus
  | TimerFires int
  | ContentProcessDidTerminate int
  | RenderProcessGone bool
  | HttpError int "int option"
  | Message string
  | LoadEnd
  | RefChange bool

fun step :: "(string \<Rightarrow> json option) \<Rightarrow> azv_state \<Rightarrow> event \<Rightarrow> azv_state" where
  "step P s (AppStateChange now st) = onAppStateChange now st s"
| "step P s (TimerFires now) = fireTimer now s"
| "step P s (ContentProcessDidTerminate now) = onContentProcessDidTerminate now s"
| "step P s (RenderProcessGone didCrash) = onRenderProcessGone didCrash s"
| "step P s (HttpError now statusCode) = onHttpError now statusCode s"
| "step P s (Message raw) = handleMessage P raw s"
| "step P s LoadEnd = handleWebViewLoadEnd s"
| "step P s (RefChange present) = s\<lparr>webViewRef := present\<rparr>"

definition run :: "(string \<Rightarrow> json option) \<Rightarrow> azv_state \<Rightarrow> event list \<Rightarrow> azv_state" where
  "run P s es = foldl (step P) s es"

section \<open>The connection monitor and the fallback screen (ConnectionManagerWrapper)\<close>

record ConnectionStatus =
  isConnected :: bool
  loadingTime :: "int option"
  isSlowConnection :: bool
  requestUrl :: "string option"
  timestamp :: int

text \<open>
  The fields of \<open>ConnectionMonitorService\<close> the wrapper reads or writes.
  \<open>autoErrorTimeout\<close> is the pending timer's delay, \<open>None\<close> for \<open>null\<close>.
\<close>

record monitor_state =
  connectionStatus :: ConnectionStatus
  loadStartTime :: int
  slowConnectionThreshold :: int
  autoErrorTimeout :: "int option"
  autoErrorThreshold :: int
  isInitialLoad :: bool
  shouldShowErrorOnTimeout :: bool

definition initial_monitor :: "int \<Rightarrow> monitor_state" where
  "initial_monitor now =
     \<lparr>connectionStatus =
        \<lparr>isConnected = True, loadingTime = None, isSlowConnection = False,
         requestUrl = None, timestamp = now\<rparr>,
      loadStartTime = 0, slowConnectionThreshold = 10000, autoErrorTimeout = None,
      autoErrorThreshold = 5000, isInitialLoad = True, shouldShowErrorOnTimeout = True\<rparr>"

definition setSlowConnectionThreshold :: "int \<Rightarrow> monitor_state \<Rightarrow> monitor_state" where
  "setSlowConnectionThreshold threshold m = m\<lparr>slowConnectionThreshold := threshold\<rparr>"


definition isInitialAppLoad :: "monitor_state \<Rightarrow> bool" where
  "isInitialAppLoad m = isInitialLoad m"



datatype ScreenType = Webview | Connection_error | Manual_instructions

datatype wrapper_effect = Fetch string | SetTimeout int | OnWebViewReload

text \<open>
  The wrapper's hooks: \<open>currentScreen\<close>, \<open>isRetrying\<close> and \<open>isConnected\<close> (here
  \<open>connected\<close>, the name being taken by the status field), the monitor singleton it
  holds, and whether the parent passed the optional \<open>onWebViewReload\<close> property.
\<close>

record wrapper_state =
  currentScreen :: ScreenType
  isRetrying :: bool
  connected :: bool
  connectionMonitor :: monitor_state
  onWebViewReload :: bool
  calls :: "wrapper_effect list"

text \<open>
  The wrapper once mounted: its mount effect has registered the listener and set the
  monitor's slow-connection threshold to 5000.
\<close>

definition initial_wrapper :: "int \<Rightarrow> bool \<Rightarrow> wrapper_state" where
  "initial_wrapper now reloadCallback =
     \<lparr>currentScreen = Webview, isRetrying = False, connected = True,
      connectionMonitor = setSlowConnectionThreshold 5000 (initial_monitor now),
      onWebViewReload = reloadCallback, calls = []\<rparr>"

definition showConnectionError :: "wrapper_state \<Rightarrow> wrapper_state" where
  "showConnectionError w = w\<lparr>currentScreen := Connection_error\<rparr>"

definition showManualInstructions :: "wrapper_state \<Rightarrow> wrapper_state" where
  "showManualInstructions w = w\<lparr>currentScreen := Manual_instructions\<rparr>"

definition showWebView :: "wrapper_state \<Rightarrow> wrapper_state" where
  "showWebView w = w\<lparr>currentScreen := Webview\<rparr>"

text \<open>A JavaScript number is truthy unless it is \<open>undefined\<close> or zero.\<close>

definition truthy :: "int option \<Rightarrow> bool" where
  "truthy v = (case v of None \<Rightarrow> False | Some n \<Rightarrow> n \<noteq> 0)"

definition exceeds :: "int option \<Rightarrow> int \<Rightarrow> bool" where
  "exceeds v bound = (case v of None \<Rightarrow> False | Some n \<Rightarrow> bound < n)"

definition within :: "int option \<Rightarrow> int \<Rightarrow> bool" where
  "within v bound = (case v of None \<Rightarrow> False | Some n \<Rightarrow> n \<le> bound)"

definition onConnectionChange :: "ConnectionStatus \<Rightarrow> wrapper_state \<Rightarrow> wrapper_state" where
  "onConnectionChange status w =
     (let w1 = w\<lparr>connected := isConnected status\<rparr>;
          initialLoad = isInitialAppLoad (connectionMonitor w1)
      in
      if initialLoad \<and>
         (\<not> isConnected status \<or>
          (truthy (loadingTime status) \<and> exceeds (loadingTime status) 5000))
      then w1\<lparr>currentScreen := Connection_error\<rparr>
      else if isConnected status \<and> truthy (loadingTime status) \<and>
              within (loadingTime status) 5000
      then w1\<lparr>currentScreen := Webview\<rparr>
      else w1)"

subsection \<open>The retry action\<close>









section \<open>Navigation requests (WebViewService)\<close>

text \<open>
  The object the wrapper stores in \<open>global.connectionManager\<close>: the two flags are
  snapshots of the wrapper's state (\<open>cm_isConnected\<close> is the property \<open>isConnected\<close>).
\<close>

record connectionManager =
  cm_isConnected :: bool
  isOnErrorScreen :: bool

definition connectionManager_of :: "wrapper_state \<Rightarrow> connectionManager" where
  "connectionManager_of w =
     \<lparr>cm_isConnected = connected w, isOnErrorScreen = (currentScreen w = Connection_error)\<rparr>"

text \<open>
  \<open>s.includes(pat)\<close> and \<open>s.startsWith(pat)\<close>. The patterns of this program are
  ASCII, so matching characters of the UTF-8 text agrees with matching UTF-16 units.
\<close>

fun str_includes :: "string \<Rightarrow> string \<Rightarrow> bool" where
  "str_includes [] pat = (pat = [])"
| "str_includes (c # cs) pat = (prefix pat (c # cs) \<or> str_includes cs pat)"

definition startsWith :: "string \<Rightarrow> string \<Rightarrow> bool" where
  "startsWith s pat = prefix pat s"

definition allowedUrls :: "string list" where
  "allowedUrls =
     [''https://g21z9.azvmotors.kz'', ''https://securepayments.fortebank.com'',
      ''192.168.0.112:3000'', ''195.93.152.69:3001'', ''192.168.0.167:3000'',
      ''192.168.0.170:3000'', ''192.168.0.13:3000'', ''172.20.10.2:3000'',
      ''https://azv-webview.vercel.app/'', ''192.168.0.166:3000'', ''192.168.0.11:3000'',
      ''192.168.8.85:3000'', ''172.20.10.5:3000'', ''localhost:3000'', ''127.0.0.1:3000'']"

definition allowedProtocols :: "string list" where
  "allowedProtocols =
     [''http://172.20.10.5:3000'', ''http://192.168.0.11:3000'', ''http://localhost:3000'',
      ''http://127.0.0.1:3000'']"

definition specialSchemes :: "string list" where
  "specialSchemes = [''tel:'', ''mailto:'', ''sms:'', ''whatsapp:'', ''https://t.me/'', ''tg://'']"

definition isAllowedUrl :: "string \<Rightarrow> bool" where
  "isAllowedUrl url =
     (list_ex (\<lambda>allowedUrl. str_includes url allowedUrl) allowedUrls \<or>
      list_ex (\<lambda>protocol. startsWith url protocol) allowedProtocols)"

definition isSpecialScheme :: "string \<Rightarrow> bool" where
  "isSpecialScheme url = list_ex (\<lambda>scheme. startsWith url scheme) specialSchemes"

text \<open>
  The calls \<open>handleNavigationRequest\<close> makes into its collaborators. \<open>throws\<close> says
  which of them raise an exception when called; the function's \<open>try\<close> block is
  \<open>handleNavigationRequest_try\<close>, returning the calls made and either the exception
  (\<open>Inl\<close>) or the value returned.
\<close>

datatype nav_call = ShowConnectionError | HandleSpecialUrls string | OpenInExternalBrowser string

datatype exn = Exception nav_call

record nav_env =
  global_connectionManager :: "connectionManager option"
  throws :: "nav_call \<Rightarrow> bool"

definition invoke :: "nav_env \<Rightarrow> nav_call \<Rightarrow> bool \<Rightarrow> nav_call list \<times> (exn + bool)" where
  "invoke env c result = ([c], if throws env c then Inl (Exception c) else Inr result)"

definition blocked :: "nav_env \<Rightarrow> bool" where
  "blocked env =
     (case global_connectionManager env of
        None \<Rightarrow> False
      | Some cm \<Rightarrow> \<not> cm_isConnected cm \<and> isOnErrorScreen cm)"

definition handleNavigationRequest_try :: "nav_env \<Rightarrow> string \<Rightarrow> nav_call list \<times> (exn + bool)" where
  "handleNavigationRequest_try env url =
     (if blocked env then invoke env ShowConnectionError False
      else if isSpecialScheme url then invoke env (HandleSpecialUrls url) False
      else if isAllowedUrl url then ([], Inr True)
      else if str_includes url ''securepayments.fortebank.com'' then ([], Inr True)
      else if str_includes url ''payment='' \<and>
              (str_includes url ''success'' \<or> str_includes url ''failed'' \<or> str_includes url ''declined'')
      then ([], Inr True)
      else invoke env (OpenInExternalBrowser url) False)"

definition handleNavigationRequest :: "nav_env \<Rightarrow> string \<Rightarrow> nav_call list \<times> bool" where
  "handleNavigationRequest env url =
     (case handleNavigationRequest_try env url of
        (made, Inl error) \<Rightarrow> (made, False)
      | (made, Inr result) \<Rightarrow> (made, result))"

section \<open>Properties of the recovery controller\<close>

subsection \<open>What \<open>safeReload\<close> does in each of its branches\<close>

lemma safeReload_debounced: "now - lastReload s < 1500 \<Longrightarrow> safeReload now hard s = s"
  by (simp add: safeReload_def)

lemma safeReload_hard:
  "1500 \<le> now - lastReload s \<Longrightarrow> hard \<or> 2 \<le> reloadAttempts s \<Longrightarrow>
   safeReload now hard s = hardRemount (s\<lparr>lastReload := now, reloadAttempts := 0\<rparr>)"
  by (auto simp: safeReload_def Let_def)

lemma safeReload_soft:
  "1500 \<le> now - lastReload s \<Longrightarrow> \<not> hard \<Longrightarrow> reloadAttempts s < 2 \<Longrightarrow>
   safeReload now hard s =
     softReload (s\<lparr>lastReload := now, reloadAttempts := reloadAttempts s + 1\<rparr>)"
  by (auto simp: safeReload_def Let_def)

text \<open>
  Every request that reaches the controller through \<open>safeReload\<close> (a soft request, a
  forced one, the content-process-terminated signal, an HTTP status, a heartbeat
  timeout) is dropped without a trace while fewer than 1500 ms have passed since the
  last accepted one.
\<close>

lemma debounce_drops_request:
  assumes "now - lastReload s < 1500"
  shows "safeReload now hard s = s"
    and "onContentProcessDidTerminate now s = s"
    and "onHttpError now statusCode s = s"
    and "heartbeatTimeout now snapshot s = s"
  using assms
  by (simp_all add: safeReload_debounced onContentProcessDidTerminate_def onHttpError_def
        heartbeatTimeout_def split: option.splits)

lemma effects_hardRemount: "effects (hardRemount s) = effects s @ [Remount]"
  by (simp add: hardRemount_def)

lemma effects_softReload:
  "effects (softReload s) = effects s @ [if webViewRef s then Reload else Remount]"
  by (simp add: softReload_def hardRemount_def Let_def)

lemma attempts_safeReload:
  "reloadAttempts s \<le> 2 \<Longrightarrow> reloadAttempts (safeReload now hard s) \<le> 2"
  by (auto simp: safeReload_def Let_def hardRemount_def softReload_def)

lemma attempts_step: "reloadAttempts s \<le> 2 \<Longrightarrow> reloadAttempts (step P s e) \<le> 2"
  by (cases e)
     (auto simp: onAppStateChange_def fireTimer_def heartbeatTimeout_def
        onContentProcessDidTerminate_def onRenderProcessGone_def onHttpError_def
        handleMessage_def handleWebViewLoadEnd_def hardRemount_def softReload_def Let_def
        attempts_safeReload
        split: list.splits option.splits)

lemma attempts_run: "reloadAttempts s \<le> 2 \<Longrightarrow> reloadAttempts (run P s es) \<le> 2"
  unfolding run_def by (induction es arbitrary: s) (simp_all add: attempts_step)

lemma pong_safeReload: "pongCounter (safeReload now hard s) = pongCounter s"
  by (auto simp: safeReload_def Let_def hardRemount_def softReload_def)

lemma pong_step: "pongCounter s \<le> pongCounter (step P s e)"
  by (cases e)
     (auto simp: onAppStateChange_def fireTimer_def heartbeatTimeout_def
        onContentProcessDidTerminate_def onRenderProcessGone_def onHttpError_def
        handleMessage_def handleWebViewLoadEnd_def hardRemount_def softReload_def Let_def
        pong_safeReload
        split: list.splits option.splits)

lemma pong_run: "pongCounter s \<le> pongCounter (run P s es)"
  unfolding run_def
proof (induction es arbitrary: s)
  case Nil
  show ?case by simp
next
  case (Cons e es)
  have "pongCounter s \<le> pongCounter (step P s e)" by (rule pong_step)
  also have "\<dots> \<le> pongCounter (foldl (step P) (step P s e) es)" by (rule Cons.IH)
  finally show ?case by simp
qed

text \<open>
  React attaches the WebView to \<open>webViewRef\<close> before the component's effects register
  the listeners, and a change of \<open>key\<close> detaches and reattaches within one commit. No
  callback of the component changes the reference, so it stays present for as long as
  React does not detach it.
\<close>

lemma webViewRef_safeReload: "webViewRef (safeReload now hard s) = webViewRef s"
  by (auto simp: safeReload_def Let_def hardRemount_def softReload_def)

lemma webViewRef_step:
  "webViewRef s \<Longrightarrow> e \<noteq> RefChange False \<Longrightarrow> webViewRef (step P s e)"
  by (cases e)
     (auto simp: onAppStateChange_def fireTimer_def heartbeatTimeout_def
        onContentProcessDidTerminate_def onRenderProcessGone_def onHttpError_def
        handleMessage_def handleWebViewLoadEnd_def hardRemount_def softReload_def Let_def
        webViewRef_safeReload
        split: list.splits option.splits)

lemma webViewRef_run:
  "webViewRef s \<Longrightarrow> RefChange False \<notin> set es \<Longrightarrow> webViewRef (run P s es)"
  unfolding run_def
proof (induction es arbitrary: s)
  case Nil
  then show ?case by simp
next
  case (Cons e es)
  from Cons.prems have "webViewRef (step P s e)" by (auto intro: webViewRef_step)
  with Cons.IH Cons.prems(2) show ?case by simp
qed

subsection \<open>C1: the debounce window\<close>

text \<open>
  Claim C1: a recovery request arriving fewer than 1500 ms after the last accepted
  recovery action is dropped with no state change and no renderer command, uniformly
  for soft and forced requests, crash signals included.

  \<open>debounce_drops_request\<close> is that property for everything routed through
  \<open>safeReload\<close>. The render-process-gone signal is not routed through it:
  \<open>onRenderProcessGone\<close> calls \<open>hardRemount\<close> and \<open>softReload\<close> directly and never
  reads the clock. Below, an HTTP status 503 arrives at 1700000000000 and the reload is
  accepted; a second 503 and a content-process-terminated signal 100 ms later are
  dropped, while a render-process-gone signal in the same window, whatever the moment,
  sends a second command to the renderer and leaves the time of the last action as it
  was.
\<close>

theorem C1_renderProcessGone_not_debounced:
  "lastReload (onHttpError 1700000000000 (Some 503) mounted_state) = 1700000000000 \<and>
   effects (onHttpError 1700000000000 (Some 503) mounted_state) = [Reload] \<and>
   onHttpError 1700000000100 (Some 503) (onHttpError 1700000000000 (Some 503) mounted_state)
     = onHttpError 1700000000000 (Some 503) mounted_state \<and>
   onContentProcessDidTerminate 1700000000100
       (onHttpError 1700000000000 (Some 503) mounted_state)
     = onHttpError 1700000000000 (Some 503) mounted_state \<and>
   effects (onRenderProcessGone True (onHttpError 1700000000000 (Some 503) mounted_state))
     = [Reload, Remount] \<and>
   effects (onRenderProcessGone False (onHttpError 1700000000000 (Some 503) mounted_state))
     = [Reload, Reload] \<and>
   lastReload (onRenderProcessGone True (onHttpError 1700000000000 (Some 503) mounted_state))
     = 1700000000000"
  by (simp add: onHttpError_def onContentProcessDidTerminate_def onRenderProcessGone_def
        safeReload_def hardRemount_def softReload_def mounted_state_def initial_state_def
        Let_def)

subsection \<open>C2: escalation after three soft requests\<close>

text \<open>
  Claim C2, as stated: from attempt count 0, three consecutive non-forced requests,
  each at least 1500 ms after the one before, with no load completion in between,
  perform soft reload, soft reload, hard remount, and leave the counter at 0.

  The debounce also applies to the first request of the run, and the spacing of the
  three says nothing about it. Below, the content process terminates at 1700000000000:
  the forced remount is accepted and leaves the counter at 0. Non-forced requests
  follow 1000, 2500 and 4000 ms later, 1500 ms apart. The first is dropped, the other
  two reload in place; the third request does not remount and the counter ends at 2.
\<close>

theorem C2_counterexample:
  "reloadAttempts (onContentProcessDidTerminate 1700000000000 mounted_state) = 0 \<and>
   webKey (onContentProcessDidTerminate 1700000000000 mounted_state) = 1 \<and>
   safeReload 1700000001000 False (onContentProcessDidTerminate 1700000000000 mounted_state)
     = onContentProcessDidTerminate 1700000000000 mounted_state \<and>
   effects (safeReload 1700000004000 False (safeReload 1700000002500 False
      (safeReload 1700000001000 False
        (onContentProcessDidTerminate 1700000000000 mounted_state))))
     = [Remount, Reload, Reload] \<and>
   webKey (safeReload 1700000004000 False (safeReload 1700000002500 False
      (safeReload 1700000001000 False
        (onContentProcessDidTerminate 1700000000000 mounted_state)))) = 1 \<and>
   reloadAttempts (safeReload 1700000004000 False (safeReload 1700000002500 False
      (safeReload 1700000001000 False
        (onContentProcessDidTerminate 1700000000000 mounted_state)))) = 2"
  by (simp add: onContentProcessDidTerminate_def safeReload_def softReload_def hardRemount_def
        mounted_state_def initial_state_def Let_def)

text \<open>
  Claim C2, amended: on the mounted renderer (reference present), from attempt count
  0, for three consecutive non-forced requests of which the first comes at least
  1500 ms after the last accepted recovery action and each later one at least 1500 ms
  after the one before: the first two each call \<open>reload()\<close> on the renderer and leave
  its key alone, with the counter at 1 and then 2; the third increments the key, which
  recreates the renderer, and leaves the counter at 0.
\<close>

theorem C2_three_soft_requests_escalate:
  assumes "webViewRef s" and "reloadAttempts s = 0"
    and "1500 \<le> t1 - lastReload s" and "1500 \<le> t2 - t1" and "1500 \<le> t3 - t2"
  shows "safeReload t1 False s
           = s\<lparr>isLoading := True, lastReload := t1, reloadAttempts := 1,
               effects := effects s @ [Reload]\<rparr> \<and>
         safeReload t2 False (safeReload t1 False s)
           = s\<lparr>isLoading := True, lastReload := t2, reloadAttempts := 2,
               effects := effects s @ [Reload, Reload]\<rparr> \<and>
         safeReload t3 False (safeReload t2 False (safeReload t1 False s))
           = s\<lparr>isLoading := True, webKey := webKey s + 1, lastReload := t3,
               reloadAttempts := 0, effects := effects s @ [Reload, Reload, Remount]\<rparr>"
proof -
  have a: "safeReload t1 False s
           = s\<lparr>isLoading := True, lastReload := t1, reloadAttempts := 1,
               effects := effects s @ [Reload]\<rparr>"
    using assms(1-3) by (simp add: safeReload_def softReload_def Let_def)
  have b: "safeReload t2 False (safeReload t1 False s)
           = s\<lparr>isLoading := True, lastReload := t2, reloadAttempts := 2,
               effects := effects s @ [Reload, Reload]\<rparr>"
    unfolding a using assms(1,4) by (simp add: safeReload_def softReload_def Let_def)
  have c: "safeReload t3 False (safeReload t2 False (safeReload t1 False s))
           = s\<lparr>isLoading := True, webKey := webKey s + 1, lastReload := t3,
               reloadAttempts := 0, effects := effects s @ [Reload, Reload, Remount]\<rparr>"
    unfolding b using assms(5) by (simp add: safeReload_def hardRemount_def Let_def)
  from a b c show ?thesis by blast
qed

text \<open>
  The scenario of the specification: three \<open>onHttpError\<close> events with status 503, two
  seconds apart, on a mounted renderer that has seen no recovery action yet.
\<close>

theorem C2_witness:
  "effects (run (\<lambda>raw. None) mounted_state
      [HttpError 1700000000000 (Some 503), HttpError 1700000002000 (Some 503),
       HttpError 1700000004000 (Some 503)]) = [Reload, Reload, Remount] \<and>
   webKey (run (\<lambda>raw. None) mounted_state
      [HttpError 1700000000000 (Some 503), HttpError 1700000002000 (Some 503)]) = 0 \<and>
   webKey (run (\<lambda>raw. None) mounted_state
      [HttpError 1700000000000 (Some 503), HttpError 1700000002000 (Some 503),
       HttpError 1700000004000 (Some 503)]) = 1 \<and>
   reloadAttempts (run (\<lambda>raw. None) mounted_state
      [HttpError 1700000000000 (Some 503), HttpError 1700000002000 (Some 503),
       HttpError 1700000004000 (Some 503)]) = 0"
  using C2_three_soft_requests_escalate
    [of mounted_state 1700000000000 1700000002000 1700000004000]
  by (simp add: run_def onHttpError_def safeReload_def softReload_def hardRemount_def
        mounted_state_def initial_state_def Let_def)

subsection \<open>C3: the heartbeat probe\<close>



subsection \<open>C4: when the attempt counter is zero\<close>

text \<open>
  Two facts hold in every state \<open>s\<close> the component reaches by any interleaving of its
  events: the counter is 0 after a load completion, and it is 0 after an accepted
  \<open>safeReload\<close> request that takes the escalation branch (a forced request, or one
  finding the counter at 2), which increments the renderer's key once. The counter
  never exceeds 2.
\<close>

lemma attempts_zero_after_load_or_escalation:
  assumes "s = run P initial_state es"
  shows "reloadAttempts s \<le> 2 \<and>
         reloadAttempts (step P s LoadEnd) = 0 \<and>
         (1500 \<le> now - lastReload s \<and> (hard \<or> 2 \<le> reloadAttempts s) \<longrightarrow>
            reloadAttempts (safeReload now hard s) = 0 \<and>
            effects (safeReload now hard s) = effects s @ [Remount] \<and>
            webKey (safeReload now hard s) = webKey s + 1)"
proof -
  have "reloadAttempts initial_state \<le> 2" by (simp add: initial_state_def)
  then have bound: "reloadAttempts s \<le> 2" unfolding assms by (rule attempts_run)
  have loaded: "reloadAttempts (step P s LoadEnd) = 0"
    by (simp add: handleWebViewLoadEnd_def)
  have escalated: "reloadAttempts (safeReload now hard s) = 0 \<and>
            effects (safeReload now hard s) = effects s @ [Remount] \<and>
            webKey (safeReload now hard s) = webKey s + 1"
    if "1500 \<le> now - lastReload s" "hard \<or> 2 \<le> reloadAttempts s"
    using that by (simp add: safeReload_hard hardRemount_def)
  from bound loaded escalated show ?thesis by blast
qed

text \<open>
  Claim C4: after every operation that issues a hard remount, and after every load
  completion, the soft-attempt counter is 0, for all interleavings of recovery
  requests, crash signals (\<open>onRenderProcessGone\<close> with \<open>didCrash\<close> included) and load
  completions.

  The counter is reset in the escalation branch of \<open>safeReload\<close>, which
  \<open>onRenderProcessGone\<close> does not go through. Below, on the mounted renderer, an HTTP
  status 503 at 1700000000000 is answered by a reload and the counter is 1; the
  render process then crashes: \<open>onRenderProcessGone\<close> increments the renderer's key and
  the counter is still 1. The content-process-terminated signal, two seconds after the
  503, goes through \<open>safeReload\<close>: it increments the key as well and leaves the counter
  at 0.
\<close>

theorem C4_renderProcessGone_keeps_attempts:
  "reloadAttempts (onHttpError 1700000000000 (Some 503) mounted_state) = 1 \<and>
   webKey (onHttpError 1700000000000 (Some 503) mounted_state) = 0 \<and>
   webKey (onRenderProcessGone True (onHttpError 1700000000000 (Some 503) mounted_state)) = 1 \<and>
   effects (onRenderProcessGone True (onHttpError 1700000000000 (Some 503) mounted_state))
     = [Reload, Remount] \<and>
   reloadAttempts (onRenderProcessGone True
      (onHttpError 1700000000000 (Some 503) mounted_state)) = 1 \<and>
   webKey (onContentProcessDidTerminate 1700000002000
      (onHttpError 1700000000000 (Some 503) mounted_state)) = 1 \<and>
   reloadAttempts (onContentProcessDidTerminate 1700000002000
      (onHttpError 1700000000000 (Some 503) mounted_state)) = 0"
  by (simp add: onHttpError_def onRenderProcessGone_def onContentProcessDidTerminate_def
        safeReload_def softReload_def hardRemount_def mounted_state_def initial_state_def
        Let_def)

subsection \<open>C5: HTTP status events\<close>

text \<open>
  Claim C5: an HTTP status of at least 500, or equal to 0, triggers exactly one
  non-forced recovery request (subject to the debounce of \<open>safeReload\<close>); every other
  status, all of 400..499 in particular, and an event without a status, leaves the
  component untouched: no recovery request, no command, no screen action.
\<close>

theorem C5_http_status:
  "(500 \<le> code \<or> code = 0 \<longrightarrow> onHttpError now (Some code) s = safeReload now False s) \<and>
   (code < 500 \<and> code \<noteq> 0 \<longrightarrow> onHttpError now (Some code) s = s) \<and>
   (400 \<le> code \<and> code \<le> 499 \<longrightarrow> onHttpError now (Some code) s = s) \<and>
   onHttpError now None s = s"
  by (auto simp: onHttpError_def)

theorem C5_witness:
  "onHttpError 1700000000000 (Some 503) mounted_state
     = safeReload 1700000000000 False mounted_state \<and>
   effects (onHttpError 1700000000000 (Some 503) mounted_state) = [Reload] \<and>
   onHttpError 1700000000000 (Some 404) mounted_state = mounted_state"
  using C5_http_status [of 503 1700000000000 mounted_state]
    C5_http_status [of 404 1700000000000 mounted_state]
  by (simp add: safeReload_def softReload_def mounted_state_def initial_state_def Let_def)

subsection \<open>C8: the acknowledgment counter\<close>

text \<open>
  Claim C8: every acknowledgment message (its parsed value has the property \<open>t\<close>
  equal to \<open>"pong"\<close>) increments the acknowledgment counter by exactly one and changes
  nothing else, whatever token and other properties it carries; every other message
  leaves the counter alone; so the counter never decreases, over any sequence of
  events of the component.
\<close>

theorem C8_pong_counter:
  "(JSON_parse raw = Some (JObj ((''t'', JStr ''pong'') # (''token'', token) # others)) \<longrightarrow>
      handleMessage JSON_parse raw s = s\<lparr>pongCounter := pongCounter s + 1\<rparr>) \<and>
   (JSON_parse raw = Some data \<and> json_t data = Some (JStr ''pong'') \<longrightarrow>
      handleMessage JSON_parse raw s = s\<lparr>pongCounter := pongCounter s + 1\<rparr>) \<and>
   ((\<forall>data. JSON_parse raw = Some data \<longrightarrow> json_t data \<noteq> Some (JStr ''pong'')) \<longrightarrow>
      pongCounter (handleMessage JSON_parse raw s) = pongCounter s) \<and>
   pongCounter s \<le> pongCounter (handleMessage JSON_parse raw s) \<and>
   pongCounter s \<le> pongCounter (run JSON_parse s es)"
proof -
  have ack: "handleMessage JSON_parse raw s = s\<lparr>pongCounter := pongCounter s + 1\<rparr>"
    if "JSON_parse raw = Some data" "json_t data = Some (JStr ''pong'')" for data
    using that by (simp add: handleMessage_def Let_def)
  have other: "pongCounter (handleMessage JSON_parse raw s) = pongCounter s"
    if "\<forall>data. JSON_parse raw = Some data \<longrightarrow> json_t data \<noteq> Some (JStr ''pong'')"
    using that by (auto simp: handleMessage_def Let_def split: option.splits)
  have mono1: "pongCounter s \<le> pongCounter (handleMessage JSON_parse raw s)"
    using pong_step [of s JSON_parse "Message raw"] by simp
  have "json_t (JObj ((''t'', JStr ''pong'') # (''token'', token) # others))
          = Some (JStr ''pong'')"
    by simp
  with ack have tok: "JSON_parse raw = Some (JObj ((''t'', JStr ''pong'') # (''token'', token) # others))
      \<longrightarrow> handleMessage JSON_parse raw s = s\<lparr>pongCounter := pongCounter s + 1\<rparr>"
    by blast
  from ack other mono1 tok pong_run [of s JSON_parse es] show ?thesis by blast
qed

text \<open>Two acknowledgments with different tokens, then a message of the capability bridge.\<close>

theorem C8_witness:
  "pongCounter (run
      (\<lambda>raw. if raw = ''a'' then Some (JObj [(''t'', JStr ''pong''), (''token'', JStr ''17'')])
             else if raw = ''b'' then Some (JObj [(''t'', JStr ''pong''), (''token'', JNull)])
             else if raw = ''c'' then Some (JObj [(''action'', JStr ''capturePhoto'')])
             else None)
      mounted_state [Message ''a'', Message ''b'', Message ''c'', Message ''{'']) = 2 \<and>
   handleMessage (\<lambda>raw. Some (JObj [(''t'', JStr ''pong''), (''token'', JStr ''17'')])) ''a''
      mounted_state = mounted_state\<lparr>pongCounter := 1\<rparr>"
  using C8_pong_counter [of "\<lambda>raw. Some (JObj [(''t'', JStr ''pong''), (''token'', JStr ''17'')])"
      "''a''" "JStr ''17''" "[]" mounted_state]
    C8_pong_counter [of "\<lambda>raw. None" "''{''" JNull "[]" mounted_state]
  by (simp add: run_def handleMessage_def mounted_state_def initial_state_def)

subsection \<open>C9: a soft reload without a renderer\<close>

text \<open>
  Claim C9: a soft reload requested while the renderer reference is null performs a
  hard remount instead: it increments the key of the WebView element, which recreates
  the renderer, exactly as \<open>hardRemount\<close> does. So a recovery request that passes the
  debounce always sends exactly one recovery command: either \<open>reload()\<close> on the present
  renderer, its key unchanged, or a remount, its key incremented by one.
\<close>

theorem C9_soft_reload_fallback:
  "(\<not> webViewRef s \<longrightarrow> softReload s = hardRemount s) \<and>
   (webViewRef s \<longrightarrow> softReload s = s\<lparr>isLoading := True, effects := effects s @ [Reload]\<rparr>) \<and>
   hardRemount s =
     s\<lparr>isLoading := True, webKey := webKey s + 1, effects := effects s @ [Remount]\<rparr> \<and>
   (\<not> webViewRef s \<longrightarrow>
      softReload s =
        s\<lparr>isLoading := True, webKey := webKey s + 1, effects := effects s @ [Remount]\<rparr>) \<and>
   (1500 \<le> now - lastReload s \<longrightarrow>
      effects (safeReload now hard s) = effects s @ [Reload] \<or>
      effects (safeReload now hard s) = effects s @ [Remount]) \<and>
   (1500 \<le> now - lastReload s \<longrightarrow>
      (webViewRef s \<and> effects (safeReload now hard s) = effects s @ [Reload] \<and>
       webKey (safeReload now hard s) = webKey s) \<or>
      (effects (safeReload now hard s) = effects s @ [Remount] \<and>
       webKey (safeReload now hard s) = webKey s + 1))"
  by (auto simp: safeReload_def softReload_def hardRemount_def Let_def)

theorem C9_witness:
  "softReload initial_state = hardRemount initial_state \<and>
   webKey initial_state = 0 \<and>
   webKey (softReload initial_state) = 1 \<and>
   effects (softReload initial_state) = [Remount] \<and>
   effects (safeReload 1700000000000 False initial_state) = [Remount] \<and>
   webKey (safeReload 1700000000000 False initial_state) = 1 \<and>
   effects (safeReload 1700000000000 False mounted_state) = [Reload] \<and>
   webKey (safeReload 1700000000000 False mounted_state) = 0"
  using C9_soft_reload_fallback [of initial_state 1700000000000 False]
    C9_soft_reload_fallback [of mounted_state 1700000000000 False]
  by (simp add: safeReload_def softReload_def hardRemount_def mounted_state_def
        initial_state_def Let_def)

section \<open>Properties of the fallback screen\<close>

lemma onConnectionChange_monitor:
  "connectionMonitor (onConnectionChange st w) = connectionMonitor w"
  by (simp add: onConnectionChange_def Let_def)

lemma onConnectionChange_screen:
  "currentScreen (onConnectionChange st w) =
     (if isInitialLoad (connectionMonitor w) \<and>
         (\<not> isConnected st \<or> (\<exists>n. loadingTime st = Some n \<and> 5000 < n))
      then Connection_error
      else if isConnected st \<and> (\<exists>n. loadingTime st = Some n \<and> n \<noteq> 0 \<and> n \<le> 5000)
      then Webview
      else currentScreen w)"
  by (cases "loadingTime st")
     (auto simp: onConnectionChange_def isInitialAppLoad_def truthy_def exceeds_def within_def
        Let_def)

lemma not_initial_stays_off_error:
  "\<not> isInitialLoad (connectionMonitor w) \<Longrightarrow> currentScreen w \<noteq> Connection_error \<Longrightarrow>
   currentScreen (foldl (\<lambda>v st. onConnectionChange st v) w sts) \<noteq> Connection_error"
proof (induction sts arbitrary: w)
  case Nil
  then show ?case by simp
next
  case (Cons st sts)
  have "\<not> isInitialLoad (connectionMonitor (onConnectionChange st w))"
    using Cons.prems(1) by (simp add: onConnectionChange_monitor)
  moreover have "currentScreen (onConnectionChange st w) \<noteq> Connection_error"
    using Cons.prems by (simp add: onConnectionChange_screen)
  ultimately show ?case using Cons.IH by simp
qed

subsection \<open>C6: connection-status changes and the error screen\<close>

text \<open>
  Claim C6: on a connection-status change the screen goes from Normal to
  ConnectionError exactly when the monitor's initial-load flag is true and the status
  reports a disconnect or a loading time above 5000 ms; while the flag is false no
  status change, and no sequence of status changes, brings a screen that is not
  ConnectionError to ConnectionError.
\<close>

theorem C6_connection_listener:
  "(currentScreen w = Webview \<longrightarrow>
      (currentScreen (onConnectionChange st w) = Connection_error \<longleftrightarrow>
         isInitialLoad (connectionMonitor w) \<and>
         (\<not> isConnected st \<or> (\<exists>n. loadingTime st = Some n \<and> 5000 < n)))) \<and>
   (\<not> isInitialLoad (connectionMonitor w) \<and> currentScreen w \<noteq> Connection_error \<longrightarrow>
      currentScreen (onConnectionChange st w) \<noteq> Connection_error \<and>
      currentScreen (foldl (\<lambda>v st. onConnectionChange st v) w sts) \<noteq> Connection_error)"
proof -
  have enter: "currentScreen (onConnectionChange st w) = Connection_error \<longleftrightarrow>
         isInitialLoad (connectionMonitor w) \<and>
         (\<not> isConnected st \<or> (\<exists>n. loadingTime st = Some n \<and> 5000 < n))"
    if "currentScreen w = Webview"
    using that by (simp add: onConnectionChange_screen)
  have stay: "currentScreen (onConnectionChange st w) \<noteq> Connection_error"
    if "\<not> isInitialLoad (connectionMonitor w)" "currentScreen w \<noteq> Connection_error"
    using that by (simp add: onConnectionChange_screen)
  from enter stay not_initial_stays_off_error [of w sts] show ?thesis by blast
qed

text \<open>
  A disconnect during the initial load shows the error screen; the same status after
  the flag was cleared does not, and neither does a load of 9000 ms.
\<close>

theorem C6_witness:
  "currentScreen (onConnectionChange
      \<lparr>isConnected = False, loadingTime = Some 700, isSlowConnection = True,
       requestUrl = None, timestamp = 1700000000700\<rparr>
      (initial_wrapper 1700000000000 True)) = Connection_error \<and>
   currentScreen (onConnectionChange
      \<lparr>isConnected = False, loadingTime = Some 700, isSlowConnection = True,
       requestUrl = None, timestamp = 1700000000700\<rparr>
      ((initial_wrapper 1700000000000 True)
         \<lparr>connectionMonitor := setSlowConnectionThreshold 5000
            ((initial_monitor 1700000000000)\<lparr>isInitialLoad := False\<rparr>)\<rparr>))
     = Webview \<and>
   currentScreen (onConnectionChange
      \<lparr>isConnected = True, loadingTime = Some 9000, isSlowConnection = True,
       requestUrl = None, timestamp = 1700000009000\<rparr>
      ((initial_wrapper 1700000000000 True)
         \<lparr>connectionMonitor := setSlowConnectionThreshold 5000
            ((initial_monitor 1700000000000)\<lparr>isInitialLoad := False\<rparr>)\<rparr>))
     = Webview"
  using C6_connection_listener [of "initial_wrapper 1700000000000 True"
      "\<lparr>isConnected = False, loadingTime = Some 700, isSlowConnection = True,
        requestUrl = None, timestamp = 1700000000700\<rparr>" "[]"]
    C6_connection_listener [of "(initial_wrapper 1700000000000 True)
         \<lparr>connectionMonitor := setSlowConnectionThreshold 5000
            ((initial_monitor 1700000000000)\<lparr>isInitialLoad := False\<rparr>)\<rparr>"
      "\<lparr>isConnected = False, loadingTime = Some 700, isSlowConnection = True,
        requestUrl = None, timestamp = 1700000000700\<rparr>"
      "[\<lparr>isConnected = True, loadingTime = Some 9000, isSlowConnection = True,
         requestUrl = None, timestamp = 1700000009000\<rparr>]"]
  by (simp add: onConnectionChange_def isInitialAppLoad_def truthy_def exceeds_def within_def
        initial_wrapper_def initial_monitor_def setSlowConnectionThreshold_def Let_def)

subsection \<open>C7: the manual retry\<close>





section \<open>Properties of the navigation handler\<close>

lemma str_includes_sublist: "str_includes s pat \<longleftrightarrow> sublist pat s"
  by (induction s) (auto simp: sublist_Cons_right)

subsection \<open>C10: navigation while the error screen is up\<close>

text \<open>
  Claim C10: whenever the global connection-manager handle exists and reports
  not connected with the error screen active, \<open>handleNavigationRequest\<close> makes exactly
  one call, \<open>showConnectionError\<close>, and returns false, for every URL; and whenever
  an exception is raised inside its \<open>try\<close> block the function returns false instead of
  raising. The handle the wrapper installs reports exactly its \<open>isConnected\<close> state and
  whether its screen is the error screen.
\<close>

theorem C10_navigation_blocked:
  "(global_connectionManager env = Some cm \<and> \<not> cm_isConnected cm \<and> isOnErrorScreen cm \<longrightarrow>
      handleNavigationRequest env url = ([ShowConnectionError], False)) \<and>
   (global_connectionManager env = Some (connectionManager_of w) \<and> \<not> connected w \<and>
    currentScreen w = Connection_error \<longrightarrow>
      handleNavigationRequest env url = ([ShowConnectionError], False)) \<and>
   (snd (handleNavigationRequest_try env url) = Inl error \<longrightarrow>
      snd (handleNavigationRequest env url) = False) \<and>
   (snd (handleNavigationRequest_try env url) = Inr result \<longrightarrow>
      snd (handleNavigationRequest env url) = result) \<and>
   fst (handleNavigationRequest env url) = fst (handleNavigationRequest_try env url)"
proof -
  have block: "handleNavigationRequest env url = ([ShowConnectionError], False)"
    if "global_connectionManager env = Some cm" "\<not> cm_isConnected cm" "isOnErrorScreen cm"
    for cm
    using that
    by (simp add: handleNavigationRequest_def handleNavigationRequest_try_def blocked_def
          invoke_def)
  have handle: "\<not> cm_isConnected (connectionManager_of w) \<and> isOnErrorScreen (connectionManager_of w)"
    if "\<not> connected w" "currentScreen w = Connection_error"
    using that by (simp add: connectionManager_of_def)
  have caught: "snd (handleNavigationRequest env url) = False"
    if "snd (handleNavigationRequest_try env url) = Inl error"
    using that
    by (cases "handleNavigationRequest_try env url") (simp add: handleNavigationRequest_def)
  have returned: "snd (handleNavigationRequest env url) = result"
    if "snd (handleNavigationRequest_try env url) = Inr result"
    using that
    by (cases "handleNavigationRequest_try env url") (simp add: handleNavigationRequest_def)
  have made: "fst (handleNavigationRequest env url) = fst (handleNavigationRequest_try env url)"
    by (cases "handleNavigationRequest_try env url")
       (simp add: handleNavigationRequest_def split: sum.splits)
  from block handle caught returned made show ?thesis by blast
qed

text \<open>
  The wrapper is disconnected on its error screen: a request for the application's own
  URL is blocked, also when \<open>showConnectionError\<close> raises. With no handle installed the
  same URL is allowed, and an external URL whose opening raises is refused, not raised.
\<close>

theorem C10_witness:
  "handleNavigationRequest
      \<lparr>global_connectionManager = Some (connectionManager_of
         ((showConnectionError (initial_wrapper 1700000000000 True))\<lparr>connected := False\<rparr>)),
       throws = (\<lambda>c. False)\<rparr> ''https://g21z9.azvmotors.kz/cars''
     = ([ShowConnectionError], False) \<and>
   handleNavigationRequest
      \<lparr>global_connectionManager = Some (connectionManager_of
         ((showConnectionError (initial_wrapper 1700000000000 True))\<lparr>connected := False\<rparr>)),
       throws = (\<lambda>c. True)\<rparr> ''https://g21z9.azvmotors.kz/cars''
     = ([ShowConnectionError], False) \<and>
   handleNavigationRequest \<lparr>global_connectionManager = None, throws = (\<lambda>c. False)\<rparr>
      ''https://g21z9.azvmotors.kz/cars'' = ([], True) \<and>
   handleNavigationRequest \<lparr>global_connectionManager = None, throws = (\<lambda>c. True)\<rparr>
      ''https://example.com/'' = ([OpenInExternalBrowser ''https://example.com/''], False)"
  using C10_navigation_blocked
    [of "\<lparr>global_connectionManager = Some (connectionManager_of
           ((showConnectionError (initial_wrapper 1700000000000 True))\<lparr>connected := False\<rparr>)),
         throws = (\<lambda>c. True)\<rparr>"
        "connectionManager_of
           ((showConnectionError (initial_wrapper 1700000000000 True))\<lparr>connected := False\<rparr>)"
        "''https://g21z9.azvmotors.kz/cars''"
        "(showConnectionError (initial_wrapper 1700000000000 True))\<lparr>connected := False\<rparr>"
        "Exception ShowConnectionError" False]
    C10_navigation_blocked
    [of "\<lparr>global_connectionManager = None, throws = (\<lambda>c. False)\<rparr>"
        "connectionManager_of (initial_wrapper 1700000000000 True)"
        "''https://g21z9.azvmotors.kz/cars''" "initial_wrapper 1700000000000 True"
        "Exception ShowConnectionError" True]
  by (simp add: handleNavigationRequest_def handleNavigationRequest_try_def blocked_def
        invoke_def connectionManager_of_def showConnectionError_def initial_wrapper_def
        isSpecialScheme_def specialSchemes_def startsWith_def isAllowedUrl_def allowedUrls_def
        allowedProtocols_def)


end
